theory Spec2Isabelle
  imports Main "HOL-Library.Word" "HOL-Library.Sublist"
begin

section \<open>JavaScript strings and arrays\<close>

text \<open>
  A JavaScript string is a sequence of UTF-16 code units. The regular expressions of
  \<open>cleanText\<close> carry no \<open>u\<close> flag and \<open>String.prototype.includes\<close> compares code
  units, so the code unit is the character of this development.
\<close>

type_synonym unit16 = "16 word"
type_synonym jsstring = "unit16 list"

text \<open>A string literal of the source whose characters are all ASCII.\<close>

definition ascii :: "string \<Rightarrow> jsstring" where
  "ascii s = map of_char s"

text \<open>
  \<open>s.includes(t)\<close>: the search string is looked for at position 0, then 1, ... up to the
  end of \<open>s\<close>; \<open>startsWith\<close> is the comparison made at one position.
\<close>

fun startsWith :: "jsstring \<Rightarrow> jsstring \<Rightarrow> bool" where
  "startsWith s [] = True"
| "startsWith [] (y # ys) = False"
| "startsWith (x # xs) (y # ys) = (x = y \<and> startsWith xs ys)"

fun string_includes :: "jsstring \<Rightarrow> jsstring \<Rightarrow> bool" where
  "string_includes [] t = startsWith [] t"
| "string_includes (x # xs) t = (startsWith (x # xs) t \<or> string_includes xs t)"

text \<open>\<open>Array.prototype.includes\<close>, \<open>some\<close> and \<open>filter\<close>, as the loops they are.\<close>

fun array_includes :: "'a list \<Rightarrow> 'a \<Rightarrow> bool" where
  "array_includes [] v = False"
| "array_includes (x # xs) v = (x = v \<or> array_includes xs v)"

fun array_some :: "'a list \<Rightarrow> ('a \<Rightarrow> bool) \<Rightarrow> bool" where
  "array_some [] p = False"
| "array_some (x # xs) p = (p x \<or> array_some xs p)"

fun array_filter :: "'a list \<Rightarrow> ('a \<Rightarrow> bool) \<Rightarrow> 'a list" where
  "array_filter [] p = []"
| "array_filter (x # xs) p = (if p x then x # array_filter xs p else array_filter xs p)"

text \<open>
  \<open>String.prototype.toLowerCase\<close> is the Unicode case mapping of the host, not code of
  the repository: the filter takes it as a parameter \<open>toLowerCase\<close>. The function below is
  its restriction to code units below 0x100 (Basic Latin and Latin-1 Supplement), used to
  evaluate the filter on concrete catalogs.
\<close>

definition lower_unit :: "unit16 \<Rightarrow> unit16" where
  "lower_unit c =
     (if (0x41 \<le> c \<and> c \<le> 0x5A) \<or> (0xC0 \<le> c \<and> c \<le> 0xDE \<and> c \<noteq> 0xD7)
      then c + 0x20 else c)"

definition latin1_toLowerCase :: "jsstring \<Rightarrow> jsstring" where
  "latin1_toLowerCase s = map lower_unit s"

section \<open>The data model (types.ts)\<close>

datatype Language = ES | EU

datatype UserRole = TEACHER | STUDENT | BOTH

datatype AppCategory =
  GAMIFICATION | CONTENT_CREATION | MANAGEMENT | ASSESSMENT | COLLABORATION | OTHER

datatype EducationStage =
  INFANTIL | PRIMARIA | SECUNDARIA | BACHILLERATO | FP | UNIVERSIDAD

datatype PriceModel = Gratis | Freemium | Pago

text \<open>
  The enums are string enums: at run time a member is its string, and the selection
  arrays of the filter hold such strings. These are the strings.
\<close>

fun UserRole_value :: "UserRole \<Rightarrow> jsstring" where
  "UserRole_value TEACHER = ascii ''Docente''"
| "UserRole_value STUDENT = ascii ''Alumnado''"
| "UserRole_value BOTH = ascii ''Ambos''"

fun AppCategory_value :: "AppCategory \<Rightarrow> jsstring" where
  "AppCategory_value GAMIFICATION = ascii ''Gamificaci'' @ [0xF3] @ ascii ''n''"
| "AppCategory_value CONTENT_CREATION = ascii ''Creaci'' @ [0xF3] @ ascii ''n de Contenido''"
| "AppCategory_value MANAGEMENT = ascii ''Gesti'' @ [0xF3] @ ascii ''n''"
| "AppCategory_value ASSESSMENT = ascii ''Evaluaci'' @ [0xF3] @ ascii ''n''"
| "AppCategory_value COLLABORATION = ascii ''Colaboraci'' @ [0xF3] @ ascii ''n''"
| "AppCategory_value OTHER = ascii ''Otros''"

fun EducationStage_value :: "EducationStage \<Rightarrow> jsstring" where
  "EducationStage_value INFANTIL = ascii ''Infantil''"
| "EducationStage_value PRIMARIA = ascii ''Primaria''"
| "EducationStage_value SECUNDARIA = ascii ''Secundaria''"
| "EducationStage_value BACHILLERATO = ascii ''Bachillerato''"
| "EducationStage_value FP = ascii ''FP''"
| "EducationStage_value UNIVERSIDAD = ascii ''Universidad''"

fun PriceModel_value :: "PriceModel \<Rightarrow> jsstring" where
  "PriceModel_value Gratis = ascii ''Gratis''"
| "PriceModel_value Freemium = ascii ''Freemium''"
| "PriceModel_value Pago = ascii ''Pago''"

record LocalizedText =
  es :: jsstring
  eu :: jsstring

record LocalizedList =
  es_list :: "jsstring list"
  eu_list :: "jsstring list"

text \<open>
  \<open>minAge\<close> is \<open>number | null\<close> in the source; the catalog holds whole numbers, so the
  model is an optional integer.
\<close>

record EduApp =
  app_id :: jsstring
  name :: jsstring
  description :: LocalizedText
  category :: AppCategory
  targetAudience :: UserRole
  stages :: "EducationStage list"
  priceModel :: PriceModel
  website :: jsstring
  iconUrl :: jsstring
  features :: LocalizedList
  minAge :: "int option"

record AIPrivacyAnalysis =
  gdprCompliant :: bool
  dataCollected :: jsstring
  ageWarning :: jsstring
  complianceSummary :: jsstring

record AIReview =
  summary :: jsstring
  teacherTip :: jsstring
  studentActivity :: jsstring
  pros :: "jsstring list"
  cons :: "jsstring list"
  privacy :: AIPrivacyAnalysis

section \<open>The filter engine (App.tsx)\<close>

text \<open>The state of the \<open>App\<close> component: one field per \<open>useState\<close>.\<close>

record app_state =
  language :: Language
  searchTerm :: jsstring
  selectedCategories :: "jsstring list"
  selectedStages :: "jsstring list"
  selectedRoles :: "jsstring list"
  selectedPrices :: "jsstring list"
  selectedApp :: "EduApp option"

definition initial_state :: app_state where
  "initial_state =
     \<lparr>language = ES, searchTerm = [], selectedCategories = [], selectedStages = [],
      selectedRoles = [], selectedPrices = [], selectedApp = None\<rparr>"

definition toggleLanguage :: "app_state \<Rightarrow> app_state" where
  "toggleLanguage st = st\<lparr>language := (if language st = ES then EU else ES)\<rparr>"

definition clearFilters :: "app_state \<Rightarrow> app_state" where
  "clearFilters st =
     st\<lparr>searchTerm := [], selectedCategories := [], selectedStages := [],
        selectedRoles := [], selectedPrices := []\<rparr>"

text \<open>The five local constants of the callback given to \<open>APP_DATA.filter\<close>.\<close>

definition matchesSearch :: "(jsstring \<Rightarrow> jsstring) \<Rightarrow> app_state \<Rightarrow> EduApp \<Rightarrow> bool" where
  "matchesSearch toLowerCase st app =
     (string_includes (toLowerCase (name app)) (toLowerCase (searchTerm st)) \<or>
      string_includes (toLowerCase (es (description app))) (toLowerCase (searchTerm st)) \<or>
      string_includes (toLowerCase (eu (description app))) (toLowerCase (searchTerm st)))"

definition matchesCategory :: "app_state \<Rightarrow> EduApp \<Rightarrow> bool" where
  "matchesCategory st app =
     (length (selectedCategories st) = 0 \<or>
      array_includes (selectedCategories st) (AppCategory_value (category app)))"

definition matchesStage :: "app_state \<Rightarrow> EduApp \<Rightarrow> bool" where
  "matchesStage st app =
     (length (selectedStages st) = 0 \<or>
      array_some (stages app) (\<lambda>s. array_includes (selectedStages st) (EducationStage_value s)))"

definition matchesRole :: "app_state \<Rightarrow> EduApp \<Rightarrow> bool" where
  "matchesRole st app =
     (length (selectedRoles st) = 0 \<or>
      array_some (selectedRoles st)
        (\<lambda>role. if targetAudience app = BOTH then True
                else UserRole_value (targetAudience app) = role))"

definition matchesPrice :: "app_state \<Rightarrow> EduApp \<Rightarrow> bool" where
  "matchesPrice st app =
     (length (selectedPrices st) = 0 \<or>
      array_includes (selectedPrices st) (PriceModel_value (priceModel app)))"

text \<open>
  \<open>APP_DATA\<close> is the constant of constants.ts, which is not among the sources: it is a
  parameter.
\<close>

definition filteredApps ::
  "(jsstring \<Rightarrow> jsstring) \<Rightarrow> EduApp list \<Rightarrow> app_state \<Rightarrow> EduApp list" where
  "filteredApps toLowerCase APP_DATA st =
     array_filter APP_DATA
       (\<lambda>app. matchesSearch toLowerCase st app \<and> matchesCategory st app \<and>
              matchesStage st app \<and> matchesRole st app \<and> matchesPrice st app)"

definition activeFilterCount :: "app_state \<Rightarrow> nat" where
  "activeFilterCount st =
     length (selectedCategories st) + length (selectedStages st) +
     length (selectedRoles st) + length (selectedPrices st)"

section \<open>The image resolution chain (AppCard, AppDetailModal)\<close>

text \<open>
  Both components hold the same two state variables and the same \<open>handleImgError\<close>;
  one model serves both. \<open>new URL(app.website).hostname\<close> is the URL parser of the host:
  the parameter \<open>hostname\<close> gives the host name, or \<open>None\<close> where the constructor throws.
\<close>

record img_state =
  imgSrc :: jsstring
  showPlaceholder :: bool

definition favicon_url :: "jsstring \<Rightarrow> jsstring" where
  "favicon_url domain =
     ascii ''https://www.google.com/s2/favicons?domain='' @ domain @ ascii ''&sz=128''"

definition img_initial :: "EduApp \<Rightarrow> img_state" where
  "img_initial app = \<lparr>imgSrc = iconUrl app, showPlaceholder = False\<rparr>"

definition handleImgError ::
  "(jsstring \<Rightarrow> jsstring option) \<Rightarrow> EduApp \<Rightarrow> img_state \<Rightarrow> img_state" where
  "handleImgError hostname app st =
     (if imgSrc st = iconUrl app then
        (case hostname (website app) of
           Some domain \<Rightarrow> st\<lparr>imgSrc := favicon_url domain\<rparr>
         | None \<Rightarrow> st\<lparr>showPlaceholder := True\<rparr>)
      else st\<lparr>showPlaceholder := True\<rparr>)"

text \<open>The effect with dependency \<open>[app.iconUrl]\<close>, run when the component is given \<open>app'\<close>.\<close>

definition img_rerender :: "EduApp \<Rightarrow> EduApp \<Rightarrow> img_state \<Rightarrow> img_state" where
  "img_rerender app app' st = (if iconUrl app' \<noteq> iconUrl app then img_initial app' else st)"

text \<open>What the logo container renders: the \<open>img\<close> element, or the category placeholder.\<close>

datatype logo = Img jsstring | CategoryPlaceholder AppCategory

definition render_logo :: "EduApp \<Rightarrow> img_state \<Rightarrow> logo" where
  "render_logo app st =
     (if \<not> showPlaceholder st then Img (imgSrc st) else CategoryPlaceholder (category app))"

section \<open>The review request of the detail view (AppDetailModal)\<close>

text \<open>
  Each run of the effect with dependencies \<open>[app, language]\<close> creates one closure
  variable \<open>isMounted\<close> and calls \<open>analyzeAppWithGemini\<close> once. The model keeps the log
  of these calls, each with its closure variable. Dependencies are compared by value here
  (React compares the \<open>app\<close> object by reference).
\<close>

record request =
  req_app :: EduApp
  req_language :: Language
  isMounted :: bool

record modal_state =
  m_app :: EduApp
  m_language :: Language
  analysis :: "AIReview option"
  loading :: bool
  error :: "jsstring option"
  requests :: "request list"

text \<open>The cleanup function of the latest run of the effect: \<open>isMounted = false\<close>.\<close>

fun cleanup :: "request list \<Rightarrow> request list" where
  "cleanup [] = []"
| "cleanup [r] = [r\<lparr>isMounted := False\<rparr>]"
| "cleanup (r # rs) = r # cleanup rs"

text \<open>\<open>generateAnalysis\<close> up to its \<open>await\<close>.\<close>

definition generateAnalysis :: "modal_state \<Rightarrow> modal_state" where
  "generateAnalysis ms =
     ms\<lparr>loading := True, error := None, analysis := None,
        requests := requests ms @
          [\<lparr>req_app = m_app ms, req_language = m_language ms, isMounted = True\<rparr>]\<rparr>"

definition modal_mount :: "EduApp \<Rightarrow> Language \<Rightarrow> modal_state" where
  "modal_mount app lang =
     generateAnalysis
       \<lparr>m_app = app, m_language = lang, analysis = None, loading = True, error = None,
        requests = []\<rparr>"

definition modal_rerender :: "EduApp \<Rightarrow> Language \<Rightarrow> modal_state \<Rightarrow> modal_state" where
  "modal_rerender app lang ms =
     (if app \<noteq> m_app ms \<or> lang \<noteq> m_language ms then
        generateAnalysis (ms\<lparr>m_app := app, m_language := lang, requests := cleanup (requests ms)\<rparr>)
      else ms)"

definition modal_unmount :: "modal_state \<Rightarrow> modal_state" where
  "modal_unmount ms = ms\<lparr>requests := cleanup (requests ms)\<rparr>"

text \<open>
  \<open>generateAnalysis\<close> after its \<open>await\<close>, for the \<open>i\<close>-th call: \<open>Inr\<close> is the review of
  a fulfilled promise, \<open>Inl\<close> a rejection. \<open>modal_error\<close> is \<open>t.modal.error\<close> of
  translations.ts, in the language of the render that started the call.
\<close>

definition request_settled ::
  "(Language \<Rightarrow> jsstring) \<Rightarrow> nat \<Rightarrow> 'e + AIReview \<Rightarrow> modal_state \<Rightarrow> modal_state" where
  "request_settled modal_error i result ms =
     (if i < length (requests ms) \<and> isMounted (requests ms ! i) then
        (case result of
           Inr review \<Rightarrow> ms\<lparr>analysis := Some review, loading := False\<rparr>
         | Inl e \<Rightarrow> ms\<lparr>error := Some (modal_error (req_language (requests ms ! i))),
                       loading := False\<rparr>)
      else ms)"

section \<open>Text for the PDF export (AppDetailModal)\<close>

text \<open>
  \<open>text.replace(/[...]/g, r)\<close> for a regular expression that is one character class and
  a replacement without \<open>$\<close>: every code unit of the class becomes \<open>r\<close>.
\<close>

definition replace_all :: "(unit16 \<Rightarrow> bool) \<Rightarrow> jsstring \<Rightarrow> jsstring \<Rightarrow> jsstring" where
  "replace_all cls r s = concat (map (\<lambda>c. if cls c then r else [c]) s)"

definition cleanText :: "jsstring \<Rightarrow> jsstring" where
  "cleanText text =
     (if text = [] then []
      else
        replace_all
          (\<lambda>c. \<not> (c \<le> 0x7F \<or> (0xA0 \<le> c \<and> c \<le> 0xFF) \<or> c = 0x0A \<or> c = 0x0D))
          (ascii '' '')
          (replace_all (\<lambda>c. c = 0x2022) (ascii ''-'')
            (replace_all (\<lambda>c. c = 0x2013 \<or> c = 0x2014) (ascii ''-'')
              (replace_all (\<lambda>c. c = 0x201C \<or> c = 0x201D) [0x22]
                (replace_all (\<lambda>c. c = 0x2018 \<or> c = 0x2019) [0x27] text)))))"

section \<open>The minimum-age field on the three surfaces\<close>

text \<open>The decimal string of a whole number, as a template literal prints it.\<close>

fun nat_toString :: "nat \<Rightarrow> jsstring" where
  "nat_toString n =
     (if n < 10 then [0x30 + of_nat n]
      else nat_toString (n div 10) @ [0x30 + of_nat (n mod 10)])"

declare nat_toString.simps [simp del]

definition Number_toString :: "int \<Rightarrow> jsstring" where
  "Number_toString i =
     (if i < 0 then ascii ''-'' @ nat_toString (nat (- i)) else nat_toString (nat i))"

text \<open>\<open>app.minAge ? ... : ...\<close>: \<open>null\<close> and \<open>0\<close> are falsy.\<close>

fun truthy :: "int option \<Rightarrow> bool" where
  "truthy None = False"
| "truthy (Some n) = (n \<noteq> 0)"

text \<open>The detail view: \<open>app.minAge ? `${app.minAge}+` : '-'\<close>.\<close>

definition modal_minAge_text :: "EduApp \<Rightarrow> jsstring" where
  "modal_minAge_text app =
     (case minAge app of
        Some n \<Rightarrow> if truthy (Some n) then Number_toString n @ ascii ''+'' else ascii ''-''
      | None \<Rightarrow> ascii ''-'')"

text \<open>
  The minimum-age line of \<open>details\<close> in \<open>handleDownloadPDF\<close>, after the \<open>cleanText\<close>
  of the \<open>forEach\<close> that prints it: \<open>label\<close> is \<open>t.card.minAge\<close> of translations.ts.
\<close>

definition pdf_minAge_line :: "jsstring \<Rightarrow> EduApp \<Rightarrow> jsstring" where
  "pdf_minAge_line label app =
     cleanText
       (label @ ascii '': '' @
        (case minAge app of
           Some n \<Rightarrow> if truthy (Some n) then Number_toString n @ ascii ''+'' else ascii ''-''
         | None \<Rightarrow> ascii ''-''))"

text \<open>The badge of the card: rendered when \<open>minAge\<close> is not \<open>null\<close>.\<close>

datatype age_style = Rose_Lock | Emerald_Shield

definition getAgeStyle :: "int \<Rightarrow> age_style" where
  "getAgeStyle age = (if age \<ge> 14 then Rose_Lock else Emerald_Shield)"

definition card_minAge_badge :: "EduApp \<Rightarrow> (age_style \<times> jsstring) option" where
  "card_minAge_badge app =
     (case minAge app of
        None \<Rightarrow> None
      | Some n \<Rightarrow> Some (getAgeStyle n, ascii ''+'' @ Number_toString n))"

section \<open>The predicates of the specification\<close>

text \<open>
  The filter contract of the specification, in its own words, to be compared with
  \<open>filteredApps\<close>. A query is a case-insensitive substring of a text when the lower-cased
  query is a contiguous block of the lower-cased text (\<open>sublist\<close>).
\<close>

definition ci_substring :: "(jsstring \<Rightarrow> jsstring) \<Rightarrow> jsstring \<Rightarrow> jsstring \<Rightarrow> bool" where
  "ci_substring toLowerCase q s = sublist (toLowerCase q) (toLowerCase s)"

definition spec_text_match :: "(jsstring \<Rightarrow> jsstring) \<Rightarrow> jsstring \<Rightarrow> EduApp \<Rightarrow> bool" where
  "spec_text_match toLowerCase q e =
     (q = [] \<or> ci_substring toLowerCase q (name e) \<or>
      ci_substring toLowerCase q (es (description e)) \<or>
      ci_substring toLowerCase q (eu (description e)))"

definition spec_category_match :: "jsstring set \<Rightarrow> EduApp \<Rightarrow> bool" where
  "spec_category_match S e = (S = {} \<or> AppCategory_value (category e) \<in> S)"

definition spec_stage_match :: "jsstring set \<Rightarrow> EduApp \<Rightarrow> bool" where
  "spec_stage_match S e = (S = {} \<or> EducationStage_value ` set (stages e) \<inter> S \<noteq> {})"

definition spec_role_match :: "jsstring set \<Rightarrow> EduApp \<Rightarrow> bool" where
  "spec_role_match S e =
     (S = {} \<or> targetAudience e = BOTH \<or> UserRole_value (targetAudience e) \<in> S)"

definition spec_price_match :: "jsstring set \<Rightarrow> EduApp \<Rightarrow> bool" where
  "spec_price_match S e = (S = {} \<or> PriceModel_value (priceModel e) \<in> S)"

definition spec_passes ::
  "(jsstring \<Rightarrow> jsstring) \<Rightarrow> jsstring \<Rightarrow> jsstring set \<Rightarrow> jsstring set \<Rightarrow> jsstring set \<Rightarrow>
   jsstring set \<Rightarrow> EduApp \<Rightarrow> bool" where
  "spec_passes toLowerCase q S_cat S_stage S_role S_price e =
     (spec_text_match toLowerCase q e \<and> spec_category_match S_cat e \<and>
      spec_stage_match S_stage e \<and> spec_role_match S_role e \<and> spec_price_match S_price e)"

section \<open>Sample entries\<close>

text \<open>Three entries in the shape of the catalog, on which the definitions are evaluated.\<close>

definition sample_kahoot :: EduApp where
  "sample_kahoot =
     \<lparr>app_id = ascii ''1'', name = ascii ''Kahoot'',
      description = \<lparr>es = ascii ''Concursos'', eu = ascii ''Lehiaketak''\<rparr>,
      category = GAMIFICATION, targetAudience = BOTH, stages = [PRIMARIA, SECUNDARIA],
      priceModel = Freemium, website = ascii ''https://kahoot.com'',
      iconUrl = ascii ''https://kahoot.com/logo.png'',
      features = \<lparr>es_list = [ascii ''Quiz''], eu_list = [ascii ''Quiz'']\<rparr>, minAge = None\<rparr>"

definition sample_moodle :: EduApp where
  "sample_moodle =
     \<lparr>app_id = ascii ''2'', name = ascii ''Moodle'',
      description = \<lparr>es = ascii ''Aula virtual'', eu = ascii ''Ikasgela''\<rparr>,
      category = MANAGEMENT, targetAudience = TEACHER, stages = [SECUNDARIA, UNIVERSIDAD],
      priceModel = Gratis, website = ascii ''https://moodle.org'',
      iconUrl = ascii ''https://moodle.org/logo.png'',
      features = \<lparr>es_list = [ascii ''Cursos''], eu_list = [ascii ''Ikastaroak'']\<rparr>,
      minAge = Some 0\<rparr>"

definition sample_scratch :: EduApp where
  "sample_scratch =
     \<lparr>app_id = ascii ''3'', name = ascii ''Scratch'',
      description = \<lparr>es = ascii ''Programar'', eu = ascii ''Programatu''\<rparr>,
      category = CONTENT_CREATION, targetAudience = STUDENT, stages = [INFANTIL, PRIMARIA],
      priceModel = Gratis, website = ascii ''https://scratch.mit.edu'',
      iconUrl = ascii ''https://scratch.mit.edu/logo.png'',
      features = \<lparr>es_list = [ascii ''Bloques''], eu_list = [ascii ''Blokeak'']\<rparr>,
      minAge = Some 8\<rparr>"

definition sample_catalog :: "EduApp list" where
  "sample_catalog = [sample_kahoot, sample_moodle, sample_scratch]"

definition sample_selection :: app_state where
  "sample_selection =
     \<lparr>language = ES, searchTerm = [], selectedCategories = [],
      selectedStages = [ascii ''Primaria''], selectedRoles = [ascii ''Alumnado''],
      selectedPrices = [], selectedApp = None\<rparr>"

section \<open>The sanitization rule, one code unit at a time\<close>

text \<open>
  The character range the exporter supports (the comment of \<open>cleanText\<close>): Basic Latin
  00-7F and Latin-1 Supplement A0-FF.
\<close>

definition supported_unit :: "unit16 \<Rightarrow> bool" where
  "supported_unit c = (c \<le> 0x7F \<or> (0xA0 \<le> c \<and> c \<le> 0xFF))"

text \<open>
  What becomes of one code unit: typographic single quotes, typographic double quotes, the
  en and em dash and the bullet have an ASCII equivalent; a supported code unit is kept;
  anything else becomes a space.
\<close>

definition clean_unit :: "unit16 \<Rightarrow> unit16" where
  "clean_unit c =
     (if c = 0x2018 \<or> c = 0x2019 then 0x27
      else if c = 0x201C \<or> c = 0x201D then 0x22
      else if c = 0x2013 \<or> c = 0x2014 then 0x2D
      else if c = 0x2022 then 0x2D
      else if supported_unit c then c
      else 0x20)"

text \<open>The five replacements of \<open>cleanText\<close> in their order, each on one code unit.\<close>

definition stage1 :: "unit16 \<Rightarrow> unit16" where
  "stage1 c = (if c = 0x2018 \<or> c = 0x2019 then 0x27 else c)"

definition stage2 :: "unit16 \<Rightarrow> unit16" where
  "stage2 c = (if c = 0x201C \<or> c = 0x201D then 0x22 else c)"

definition stage3 :: "unit16 \<Rightarrow> unit16" where
  "stage3 c = (if c = 0x2013 \<or> c = 0x2014 then 0x2D else c)"

definition stage4 :: "unit16 \<Rightarrow> unit16" where
  "stage4 c = (if c = 0x2022 then 0x2D else c)"

definition stage5 :: "unit16 \<Rightarrow> unit16" where
  "stage5 c =
     (if \<not> (c \<le> 0x7F \<or> (0xA0 \<le> c \<and> c \<le> 0xFF) \<or> c = 0x0A \<or> c = 0x0D) then 0x20 else c)"

section \<open>A sample entry whose icon is the favicon-service URL of its own website\<close>

text \<open>
  \<open>sample_hostname\<close> is \<open>new URL(w).hostname\<close> at the websites of the sample entries;
  any other string stands for one that does not parse.
\<close>

definition sample_hostname :: "jsstring \<Rightarrow> jsstring option" where
  "sample_hostname w =
     (if w = ascii ''https://kahoot.com'' then Some (ascii ''kahoot.com'')
      else if w = ascii ''https://moodle.org'' then Some (ascii ''moodle.org'')
      else if w = ascii ''https://scratch.mit.edu'' then Some (ascii ''scratch.mit.edu'')
      else None)"

definition sample_favicon_entry :: EduApp where
  "sample_favicon_entry =
     sample_kahoot\<lparr>iconUrl :=
       ascii ''https://www.google.com/s2/favicons?domain=kahoot.com&sz=128''\<rparr>"

section \<open>The detail view as the page renders it (App.tsx)\<close>

text \<open>\<open>app.description[language]\<close>: a bilingual field, resolved by the language.\<close>

fun localized :: "Language \<Rightarrow> LocalizedText \<Rightarrow> jsstring" where
  "localized ES t = es t"
| "localized EU t = eu t"

definition modal_description :: "modal_state \<Rightarrow> jsstring" where
  "modal_description ms = localized (m_language ms) (description (m_app ms))"

text \<open>\<open>setSelectedApp\<close>: the click on a card gives the entry, \<open>onClose\<close> gives \<open>null\<close>.\<close>

definition setSelectedApp :: "EduApp option \<Rightarrow> app_state \<Rightarrow> app_state" where
  "setSelectedApp v st = st\<lparr>selectedApp := v\<rparr>"

text \<open>
  \<open>{selectedApp && <AppDetailModal app={selectedApp} language={language} .../>}\<close>: one
  render of \<open>App\<close> in the state \<open>st\<close>, where \<open>m\<close> is the detail view of the render
  before, if there was one. With no selected entry there is no detail view (one that was
  there is unmounted and gone); with a selected entry the view is mounted, or the view
  that is there is rendered again with the entry and the language of \<open>st\<close> as its props.
\<close>

definition App_render :: "app_state \<Rightarrow> modal_state option \<Rightarrow> modal_state option" where
  "App_render st m =
     (case selectedApp st of
        None \<Rightarrow> None
      | Some app \<Rightarrow>
          (case m of
             None \<Rightarrow> Some (modal_mount app (language st))
           | Some ms \<Rightarrow> Some (modal_rerender app (language st) ms)))"

text \<open>The page after a click on the card of the first sample entry.\<close>

definition sample_open_state :: app_state where
  "sample_open_state = setSelectedApp (Some sample_kahoot) initial_state"

section \<open>The built-in operations are the list operations of HOL\<close>

lemma startsWith_prefix: "startsWith s t \<longleftrightarrow> prefix t s"
  by (induction s t rule: startsWith.induct) auto

lemma string_includes_sublist: "string_includes s t \<longleftrightarrow> sublist t s"
proof (induction s)
  case Nil
  then show ?case by (cases t) auto
next
  case (Cons x xs)
  then show ?case by (simp add: startsWith_prefix sublist_Cons_right del: startsWith.simps)
qed

lemma string_includes_ci: "string_includes (lc s) (lc q) \<longleftrightarrow> ci_substring lc q s"
  by (simp add: string_includes_sublist ci_substring_def)

lemma array_includes_set: "array_includes xs v \<longleftrightarrow> v \<in> set xs"
  by (induction xs) auto

lemma array_some_ex: "array_some xs p \<longleftrightarrow> (\<exists>x \<in> set xs. p x)"
  by (induction xs) auto

lemma array_filter_filter: "array_filter xs p = filter p xs"
  by (induction xs) auto

lemmas sample_defs =
  sample_catalog_def sample_selection_def sample_kahoot_def sample_moodle_def
  sample_scratch_def latin1_toLowerCase_def lower_unit_def ascii_def

lemmas matches_defs =
  matchesSearch_def matchesCategory_def matchesStage_def matchesRole_def matchesPrice_def

lemma latin1_toLowerCase_Nil: "latin1_toLowerCase [] = []"
  by (simp add: latin1_toLowerCase_def)

section \<open>Each predicate of the code is the predicate of the specification\<close>

lemma matchesSearch_spec:
  assumes "lc [] = []"
  shows "matchesSearch lc st e \<longleftrightarrow> spec_text_match lc (searchTerm st) e"
proof (cases "searchTerm st = []")
  case True
  then show ?thesis using assms
    by (simp add: matchesSearch_def spec_text_match_def string_includes_sublist)
next
  case False
  then show ?thesis
    by (simp add: matchesSearch_def spec_text_match_def string_includes_ci)
qed

lemma matchesCategory_spec:
  "matchesCategory st e \<longleftrightarrow> spec_category_match (set (selectedCategories st)) e"
  by (simp add: matchesCategory_def spec_category_match_def array_includes_set)

lemma matchesStage_spec:
  "matchesStage st e \<longleftrightarrow> spec_stage_match (set (selectedStages st)) e"
  by (auto simp add: matchesStage_def spec_stage_match_def array_includes_set array_some_ex)

lemma matchesRole_spec:
  "matchesRole st e \<longleftrightarrow> spec_role_match (set (selectedRoles st)) e"
  by (cases "selectedRoles st")
     (auto simp add: matchesRole_def spec_role_match_def array_some_ex)

lemma matchesPrice_spec:
  "matchesPrice st e \<longleftrightarrow> spec_price_match (set (selectedPrices st)) e"
  by (simp add: matchesPrice_def spec_price_match_def array_includes_set)

lemma filteredApps_filter:
  assumes "lc [] = []"
  shows "filteredApps lc C st =
    filter (spec_passes lc (searchTerm st) (set (selectedCategories st))
             (set (selectedStages st)) (set (selectedRoles st)) (set (selectedPrices st))) C"
  unfolding filteredApps_def array_filter_filter
  by (rule filter_cong[OF refl])
     (simp add: spec_passes_def matchesSearch_spec[of lc, OF assms] matchesCategory_spec
        matchesStage_spec matchesRole_spec matchesPrice_spec)

lemma filteredApps_other_fields:
  "filteredApps lc C (st\<lparr>language := l, selectedApp := a\<rparr>) = filteredApps lc C st"
  by (simp add: filteredApps_def matches_defs)

section \<open>The filter engine\<close>

text \<open>
  C1. For every catalog, query and selection arrays, \<open>filteredApps\<close> is the catalog
  filtered by the conjunction of the five predicates of the specification: it holds
  exactly the entries that pass all five, in the order of the catalog. It is a function of
  the catalog, the query and the four selections only: the display language and the open
  entry do not change it. The case mapping is any function that maps the empty string to
  the empty string.
\<close>

theorem filteredApps_refines_spec:
  assumes "toLowerCase [] = []"
  shows "filteredApps toLowerCase C st =
           filter (spec_passes toLowerCase (searchTerm st) (set (selectedCategories st))
                    (set (selectedStages st)) (set (selectedRoles st))
                    (set (selectedPrices st))) C
         \<and> set (filteredApps toLowerCase C st) =
           {e \<in> set C. spec_passes toLowerCase (searchTerm st) (set (selectedCategories st))
                    (set (selectedStages st)) (set (selectedRoles st))
                    (set (selectedPrices st)) e}
         \<and> subseq (filteredApps toLowerCase C st) C
         \<and> filteredApps toLowerCase C (st\<lparr>language := l, selectedApp := a\<rparr>) =
           filteredApps toLowerCase C st"
proof -
  let ?P = "spec_passes toLowerCase (searchTerm st) (set (selectedCategories st))
              (set (selectedStages st)) (set (selectedRoles st)) (set (selectedPrices st))"
  have eq: "filteredApps toLowerCase C st = filter ?P C"
    using assms by (rule filteredApps_filter)
  have "set (filter ?P C) = {e \<in> set C. ?P e}" by simp
  moreover have "subseq (filter ?P C) C" by simp
  ultimately show ?thesis
    using eq filteredApps_other_fields[where lc = toLowerCase and C = C and st = st and l = l and a = a]
    by simp
qed

theorem filteredApps_refines_spec_witness:
  "filteredApps latin1_toLowerCase sample_catalog sample_selection =
     [sample_kahoot, sample_scratch]
   \<and> subseq [sample_kahoot, sample_scratch] sample_catalog
   \<and> set [sample_kahoot, sample_scratch] =
     {e \<in> set sample_catalog.
        spec_passes latin1_toLowerCase (searchTerm sample_selection)
          (set (selectedCategories sample_selection)) (set (selectedStages sample_selection))
          (set (selectedRoles sample_selection)) (set (selectedPrices sample_selection)) e}"
proof -
  have v: "filteredApps latin1_toLowerCase sample_catalog sample_selection =
      [sample_kahoot, sample_scratch]"
    by (simp add: filteredApps_def matches_defs sample_defs)
  show ?thesis
    using filteredApps_refines_spec[where toLowerCase = latin1_toLowerCase and C = sample_catalog
        and st = sample_selection and l = ES and a = None, OF latin1_toLowerCase_Nil]
    unfolding v by simp
qed

text \<open>
  C2. With a non-empty array of selected roles, an entry for both audiences passes the
  role predicate whatever the array holds, and an entry for a single role passes exactly
  when that role is in the array.
\<close>

theorem matchesRole_both_or_member:
  assumes "selectedRoles st \<noteq> []"
  shows "(targetAudience e = BOTH \<longrightarrow> matchesRole st e)
       \<and> (targetAudience e \<noteq> BOTH \<longrightarrow>
            (matchesRole st e \<longleftrightarrow> UserRole_value (targetAudience e) \<in> set (selectedRoles st)))"
proof -
  obtain r rs where "selectedRoles st = r # rs"
    using assms by (cases "selectedRoles st") auto
  then show ?thesis
    by (auto simp add: matchesRole_def array_some_ex)
qed

theorem matchesRole_both_or_member_witness:
  "matchesRole sample_selection sample_kahoot
   \<and> targetAudience sample_kahoot = BOTH
   \<and> \<not> matchesRole sample_selection sample_moodle
   \<and> targetAudience sample_moodle = TEACHER
   \<and> UserRole_value TEACHER \<notin> set (selectedRoles sample_selection)
   \<and> matchesRole sample_selection sample_scratch
   \<and> UserRole_value (targetAudience sample_scratch) \<in> set (selectedRoles sample_selection)
   \<and> selectedRoles sample_selection = [UserRole_value STUDENT]"
proof -
  have ne: "selectedRoles sample_selection \<noteq> []"
    by (simp add: sample_selection_def)
  show ?thesis
    using matchesRole_both_or_member[OF ne, of sample_kahoot]
      matchesRole_both_or_member[OF ne, of sample_moodle]
      matchesRole_both_or_member[OF ne, of sample_scratch]
    by (simp add: sample_defs)
qed

text \<open>
  C3. With a non-empty array of selected stages, an entry passes the stage predicate
  exactly when one of its stages is in the array: the two sets intersect. Neither
  inclusion nor equality is asked for.
\<close>

theorem matchesStage_intersection:
  assumes "selectedStages st \<noteq> []"
  shows "matchesStage st e \<longleftrightarrow>
           EducationStage_value ` set (stages e) \<inter> set (selectedStages st) \<noteq> {}"
  using assms
  by (auto simp add: matchesStage_def array_some_ex array_includes_set)

theorem matchesStage_intersection_witness:
  "stages sample_kahoot = [PRIMARIA, SECUNDARIA]
   \<and> matchesStage
       (sample_selection\<lparr>selectedStages :=
          [EducationStage_value SECUNDARIA, EducationStage_value UNIVERSIDAD]\<rparr>) sample_kahoot
   \<and> \<not> matchesStage
       (sample_selection\<lparr>selectedStages :=
          [EducationStage_value INFANTIL, EducationStage_value BACHILLERATO]\<rparr>) sample_kahoot
   \<and> \<not> EducationStage_value ` set (stages sample_kahoot) \<subseteq>
         {EducationStage_value SECUNDARIA, EducationStage_value UNIVERSIDAD}"
proof -
  let ?a = "sample_selection\<lparr>selectedStages :=
          [EducationStage_value SECUNDARIA, EducationStage_value UNIVERSIDAD]\<rparr>"
  let ?b = "sample_selection\<lparr>selectedStages :=
          [EducationStage_value INFANTIL, EducationStage_value BACHILLERATO]\<rparr>"
  have a: "selectedStages ?a \<noteq> []" by simp
  have b: "selectedStages ?b \<noteq> []" by simp
  show ?thesis
    using matchesStage_intersection[OF a, of sample_kahoot]
      matchesStage_intersection[OF b, of sample_kahoot]
    by (simp add: sample_kahoot_def ascii_def)
qed

text \<open>
  C4. An entry passes the text predicate exactly when the query is empty or is a
  case-insensitive substring of the name, of the Spanish description or of the Basque
  description. The display language plays no part: the predicate is the same in both
  languages, so an entry matched only by its Basque description is listed while the
  display language is Spanish.
\<close>

theorem matchesSearch_language_agnostic:
  assumes "toLowerCase [] = []"
  shows "(matchesSearch toLowerCase st e \<longleftrightarrow>
            searchTerm st = [] \<or>
            ci_substring toLowerCase (searchTerm st) (name e) \<or>
            ci_substring toLowerCase (searchTerm st) (es (description e)) \<or>
            ci_substring toLowerCase (searchTerm st) (eu (description e)))
       \<and> matchesSearch toLowerCase (st\<lparr>language := l\<rparr>) e = matchesSearch toLowerCase st e"
  using matchesSearch_spec[of toLowerCase, OF assms, of st e]
  by (simp add: spec_text_match_def matchesSearch_def)

theorem matchesSearch_language_agnostic_witness:
  "language (initial_state\<lparr>searchTerm := ascii ''LEHIA''\<rparr>) = ES
   \<and> matchesSearch latin1_toLowerCase (initial_state\<lparr>searchTerm := ascii ''LEHIA''\<rparr>) sample_kahoot
   \<and> \<not> string_includes (latin1_toLowerCase (name sample_kahoot)) (latin1_toLowerCase (ascii ''LEHIA''))
   \<and> \<not> string_includes (latin1_toLowerCase (es (description sample_kahoot)))
         (latin1_toLowerCase (ascii ''LEHIA''))
   \<and> ci_substring latin1_toLowerCase (ascii ''LEHIA'') (eu (description sample_kahoot))
   \<and> filteredApps latin1_toLowerCase sample_catalog (initial_state\<lparr>searchTerm := ascii ''LEHIA''\<rparr>)
       = [sample_kahoot]"
proof -
  let ?st = "initial_state\<lparr>searchTerm := ascii ''LEHIA''\<rparr>"
  have n: "\<not> string_includes (latin1_toLowerCase (name sample_kahoot))
              (latin1_toLowerCase (ascii ''LEHIA''))"
    by (simp add: sample_defs)
  have s: "\<not> string_includes (latin1_toLowerCase (es (description sample_kahoot)))
              (latin1_toLowerCase (ascii ''LEHIA''))"
    by (simp add: sample_defs)
  have m: "matchesSearch latin1_toLowerCase ?st sample_kahoot"
    by (simp add: matchesSearch_def initial_state_def sample_defs)
  have f: "filteredApps latin1_toLowerCase sample_catalog ?st = [sample_kahoot]"
    by (simp add: filteredApps_def matches_defs initial_state_def sample_defs)
  have q: "searchTerm ?st = ascii ''LEHIA''" by simp
  have q0: "ascii ''LEHIA'' \<noteq> []" by (simp add: ascii_def)
  have "ci_substring latin1_toLowerCase (ascii ''LEHIA'') (eu (description sample_kahoot))"
    using matchesSearch_language_agnostic[where toLowerCase = latin1_toLowerCase and st = "?st"
        and e = sample_kahoot and l = EU, OF latin1_toLowerCase_Nil] m n s q0
    unfolding q by (simp add: string_includes_ci)
  then show ?thesis
    using n s m f by (simp add: initial_state_def)
qed

lemma filteredApps_no_constraint:
  assumes lc: "lc [] = []"
    and q: "searchTerm st = []"
    and sel: "selectedCategories st = []" "selectedStages st = []"
      "selectedRoles st = []" "selectedPrices st = []"
  shows "filteredApps lc C st = C"
proof -
  have "spec_passes lc (searchTerm st) (set (selectedCategories st))
          (set (selectedStages st)) (set (selectedRoles st)) (set (selectedPrices st)) e" for e
    using q sel
    by (simp add: spec_passes_def spec_text_match_def spec_category_match_def
        spec_stage_match_def spec_role_match_def spec_price_match_def)
  then show ?thesis
    using filteredApps_filter[of lc, OF lc, of C st] by simp
qed

text \<open>
  C5. With the empty query and four empty selections the filter returns the catalog
  unchanged, whatever the catalog is. Each empty selection alone lets every entry pass its
  predicate.
\<close>

theorem filteredApps_empty_is_identity:
  assumes "toLowerCase [] = []"
  shows "filteredApps toLowerCase C
           \<lparr>language = l, searchTerm = [], selectedCategories = [], selectedStages = [],
            selectedRoles = [], selectedPrices = [], selectedApp = a\<rparr> = C
       \<and> matchesSearch toLowerCase (st\<lparr>searchTerm := []\<rparr>) e
       \<and> matchesCategory (st\<lparr>selectedCategories := []\<rparr>) e
       \<and> matchesStage (st\<lparr>selectedStages := []\<rparr>) e
       \<and> matchesRole (st\<lparr>selectedRoles := []\<rparr>) e
       \<and> matchesPrice (st\<lparr>selectedPrices := []\<rparr>) e"
proof -
  have "filteredApps toLowerCase C
           \<lparr>language = l, searchTerm = [], selectedCategories = [], selectedStages = [],
            selectedRoles = [], selectedPrices = [], selectedApp = a\<rparr> = C"
    using assms by (intro filteredApps_no_constraint) simp_all
  moreover have "matchesSearch toLowerCase (st\<lparr>searchTerm := []\<rparr>) e"
    using assms by (simp add: matchesSearch_def string_includes_sublist)
  ultimately show ?thesis
    by (simp add: matchesCategory_def matchesStage_def matchesRole_def matchesPrice_def)
qed

theorem filteredApps_empty_is_identity_witness:
  "filteredApps latin1_toLowerCase sample_catalog initial_state
     = [sample_kahoot, sample_moodle, sample_scratch]
   \<and> matchesRole (sample_selection\<lparr>selectedRoles := []\<rparr>) sample_moodle
   \<and> \<not> matchesRole sample_selection sample_moodle"
proof -
  have "\<not> matchesRole sample_selection sample_moodle"
    by (simp add: matchesRole_def sample_defs)
  then show ?thesis
    using filteredApps_empty_is_identity[where toLowerCase = latin1_toLowerCase
        and C = sample_catalog and l = ES and a = None and st = sample_selection
        and e = sample_moodle, OF latin1_toLowerCase_Nil]
    by (simp add: initial_state_def sample_catalog_def)
qed

text \<open>
  C6. From every state, \<open>clearFilters\<close> empties the query and the four selections and
  leaves the language and the open entry as they are. The filter then returns the whole
  catalog in its order, and the count of active filters, the sum of the lengths of the four
  selections, is zero.
\<close>

theorem clearFilters_resets:
  assumes "toLowerCase [] = []"
  shows "filteredApps toLowerCase C (clearFilters st) = C
       \<and> activeFilterCount (clearFilters st) = 0
       \<and> searchTerm (clearFilters st) = []
       \<and> selectedCategories (clearFilters st) = []
       \<and> selectedStages (clearFilters st) = []
       \<and> selectedRoles (clearFilters st) = []
       \<and> selectedPrices (clearFilters st) = []
       \<and> language (clearFilters st) = language st
       \<and> selectedApp (clearFilters st) = selectedApp st"
proof -
  have "filteredApps toLowerCase C (clearFilters st) = C"
    using assms by (intro filteredApps_no_constraint) (simp_all add: clearFilters_def)
  then show ?thesis
    by (simp add: clearFilters_def activeFilterCount_def)
qed

theorem clearFilters_resets_witness:
  "activeFilterCount sample_selection = 2
   \<and> filteredApps latin1_toLowerCase sample_catalog sample_selection \<noteq> sample_catalog
   \<and> filteredApps latin1_toLowerCase sample_catalog (clearFilters sample_selection)
       = sample_catalog
   \<and> activeFilterCount (clearFilters sample_selection) = 0"
proof -
  have "filteredApps latin1_toLowerCase sample_catalog sample_selection =
      [sample_kahoot, sample_scratch]"
    by (simp add: filteredApps_def matches_defs sample_defs)
  moreover have "activeFilterCount sample_selection = 2"
    by (simp add: activeFilterCount_def sample_selection_def)
  ultimately show ?thesis
    using clearFilters_resets[where toLowerCase = latin1_toLowerCase and C = sample_catalog
        and st = sample_selection, OF latin1_toLowerCase_Nil]
    by (simp add: sample_catalog_def)
qed

section \<open>Text for the PDF export\<close>

lemma clean_unit_special:
  "clean_unit 0x2018 = 0x27" "clean_unit 0x2019 = 0x27"
  "clean_unit 0x201C = 0x22" "clean_unit 0x201D = 0x22"
  "clean_unit 0x2013 = 0x2D" "clean_unit 0x2014 = 0x2D" "clean_unit 0x2022 = 0x2D"
  by (simp_all add: clean_unit_def)

lemma clean_unit_other:
  assumes "c \<notin> {0x2018, 0x2019, 0x201C, 0x201D, 0x2013, 0x2014, 0x2022}"
  shows "clean_unit c = (if supported_unit c then c else 0x20)"
  using assms by (simp add: clean_unit_def)

lemma supported_special: "supported_unit 0x27" "supported_unit 0x22" "supported_unit 0x2D" "supported_unit 0x20"
  by (simp_all add: supported_unit_def)

lemma unsupported_special:
  "\<not> supported_unit 0x2018" "\<not> supported_unit 0x2019" "\<not> supported_unit 0x201C" "\<not> supported_unit 0x201D"
  "\<not> supported_unit 0x2013" "\<not> supported_unit 0x2014" "\<not> supported_unit 0x2022"
  by (simp_all add: supported_unit_def)

lemma special_cases:
  assumes "c \<in> {0x2018, 0x2019, 0x201C, 0x201D, 0x2013, 0x2014, 0x2022 :: unit16}"
  obtains "c = 0x2018" | "c = 0x2019" | "c = 0x201C" | "c = 0x201D"
    | "c = 0x2013" | "c = 0x2014" | "c = 0x2022"
  using assms by blast

lemma clean_unit_supported: "supported_unit c \<Longrightarrow> clean_unit c = c"
proof (cases "c \<in> {0x2018, 0x2019, 0x201C, 0x201D, 0x2013, 0x2014, 0x2022}")
  case True
  assume "supported_unit c"
  with True show ?thesis
    by (elim special_cases) (simp_all add: unsupported_special)
next
  case False
  assume "supported_unit c"
  then show ?thesis using clean_unit_other[OF False] by simp
qed

lemma supported_clean_unit: "supported_unit (clean_unit c)"
proof (cases "c \<in> {0x2018, 0x2019, 0x201C, 0x201D, 0x2013, 0x2014, 0x2022}")
  case True
  then show ?thesis
    by (elim special_cases) (simp_all add: clean_unit_special supported_special)
next
  case False
  then show ?thesis using clean_unit_other[OF False] by (simp add: supported_special)
qed

lemma replace_all_single: "replace_all cls [r] s = map (\<lambda>c. if cls c then r else c) s"
  by (induction s) (simp_all add: replace_all_def)

lemma cleanText_stages:
  "cleanText s = map stage5 (map stage4 (map stage3 (map stage2 (map stage1 s))))"
proof -
  have sp: "ascii '' '' = [0x20]" and hy: "ascii ''-'' = [0x2D]"
    by (simp_all add: ascii_def)
  have "cleanText s = replace_all
          (\<lambda>c. \<not> (c \<le> 0x7F \<or> (0xA0 \<le> c \<and> c \<le> 0xFF) \<or> c = 0x0A \<or> c = 0x0D))
          (ascii '' '')
          (replace_all (\<lambda>c. c = 0x2022) (ascii ''-'')
            (replace_all (\<lambda>c. c = 0x2013 \<or> c = 0x2014) (ascii ''-'')
              (replace_all (\<lambda>c. c = 0x201C \<or> c = 0x201D) [0x22]
                (replace_all (\<lambda>c. c = 0x2018 \<or> c = 0x2019) [0x27] s))))"
    unfolding cleanText_def by (cases s) (simp_all add: replace_all_def)
  then show ?thesis
    unfolding sp hy replace_all_single stage1_def stage2_def stage3_def stage4_def stage5_def .
qed

lemma stages_clean_unit: "stage5 (stage4 (stage3 (stage2 (stage1 c)))) = clean_unit c"
proof (cases "c \<in> {0x2018, 0x2019, 0x201C, 0x201D, 0x2013, 0x2014, 0x2022}")
  case True
  then consider "c = 0x2018" | "c = 0x2019" | "c = 0x201C" | "c = 0x201D"
    | "c = 0x2013" | "c = 0x2014" | "c = 0x2022" by blast
  then show ?thesis
    by cases (simp_all add: clean_unit_special stage1_def stage2_def stage3_def stage4_def stage5_def)
next
  case False
  then have "stage1 c = c" "stage2 c = c" "stage3 c = c" "stage4 c = c"
    by (simp_all add: stage1_def stage2_def stage3_def stage4_def)
  moreover have "stage5 c = (if supported_unit c then c else 0x20)"
    by (auto simp add: stage5_def supported_unit_def)
  ultimately show ?thesis
    using clean_unit_other[OF False] by simp
qed

lemma cleanText_map: "cleanText s = map clean_unit s"
  by (simp add: cleanText_stages stages_clean_unit)

lemma cleanText_supported: "\<forall>c \<in> set (cleanText s). supported_unit c"
  unfolding cleanText_map using supported_clean_unit by (induction s) simp_all

lemma cleanText_nth: "i < length s \<Longrightarrow> cleanText s ! i = clean_unit (s ! i)"
  unfolding cleanText_map by (rule nth_map)

lemma clean_unit_cases:
  "(c \<in> {0x2018, 0x2019} \<longrightarrow> clean_unit c = 0x27) \<and>
   (c \<in> {0x201C, 0x201D} \<longrightarrow> clean_unit c = 0x22) \<and>
   (c \<in> {0x2013, 0x2014, 0x2022} \<longrightarrow> clean_unit c = 0x2D) \<and>
   (supported_unit c \<longrightarrow> clean_unit c = c) \<and>
   (\<not> supported_unit c \<and> c \<notin> {0x2018, 0x2019, 0x201C, 0x201D, 0x2013, 0x2014, 0x2022} \<longrightarrow>
      clean_unit c = 0x20)"
proof (intro conjI impI)
  assume "c \<in> {0x2018, 0x2019}"
  then consider "c = 0x2018" | "c = 0x2019" by blast
  then show "clean_unit c = 0x27" by cases (simp_all only: clean_unit_special)
next
  assume "c \<in> {0x201C, 0x201D}"
  then consider "c = 0x201C" | "c = 0x201D" by blast
  then show "clean_unit c = 0x22" by cases (simp_all only: clean_unit_special)
next
  assume "c \<in> {0x2013, 0x2014, 0x2022}"
  then consider "c = 0x2013" | "c = 0x2014" | "c = 0x2022" by blast
  then show "clean_unit c = 0x2D" by cases (simp_all only: clean_unit_special)
next
  assume "supported_unit c"
  then show "clean_unit c = c" by (rule clean_unit_supported)
next
  assume "\<not> supported_unit c \<and> c \<notin> {0x2018, 0x2019, 0x201C, 0x201D, 0x2013, 0x2014, 0x2022}"
  then have n: "\<not> supported_unit c"
    and o: "c \<notin> {0x2018, 0x2019, 0x201C, 0x201D, 0x2013, 0x2014, 0x2022}" by blast+
  show "clean_unit c = 0x20"
    unfolding clean_unit_other[OF o] using n by (simp only: if_False)
qed

text \<open>
  C9, as the code has it. \<open>cleanText\<close> works one code unit at a time and keeps the length
  of the text: typographic quotes become \<open>'\<close> and \<open>"\<close>, the en dash, the em dash and
  the bullet U+2022 become \<open>-\<close>, a supported code unit stays, and every other code unit
  becomes one space. Nothing is deleted, and the result holds supported code units only.
\<close>

theorem cleanText_unitwise:
  "cleanText s = map clean_unit s
   \<and> length (cleanText s) = length s
   \<and> (\<forall>c \<in> set (cleanText s). supported_unit c)
   \<and> (\<forall>i < length s.
        (s ! i \<in> {0x2018, 0x2019} \<longrightarrow> cleanText s ! i = 0x27) \<and>
        (s ! i \<in> {0x201C, 0x201D} \<longrightarrow> cleanText s ! i = 0x22) \<and>
        (s ! i \<in> {0x2013, 0x2014, 0x2022} \<longrightarrow> cleanText s ! i = 0x2D) \<and>
        (supported_unit (s ! i) \<longrightarrow> cleanText s ! i = s ! i) \<and>
        (\<not> supported_unit (s ! i) \<and>
         s ! i \<notin> {0x2018, 0x2019, 0x201C, 0x201D, 0x2013, 0x2014, 0x2022} \<longrightarrow>
           cleanText s ! i = 0x20))"
proof (intro conjI allI impI)
  show "cleanText s = map clean_unit s" by (rule cleanText_map)
  show "length (cleanText s) = length s" unfolding cleanText_map by (rule length_map)
  show "\<forall>c \<in> set (cleanText s). supported_unit c" by (rule cleanText_supported)
next
  fix i assume i: "i < length s"
  assume "s ! i \<in> {0x2018, 0x2019}"
  then show "cleanText s ! i = 0x27"
    unfolding cleanText_nth[OF i] using clean_unit_cases[of "s ! i"] by blast
next
  fix i assume i: "i < length s"
  assume "s ! i \<in> {0x201C, 0x201D}"
  then show "cleanText s ! i = 0x22"
    unfolding cleanText_nth[OF i] using clean_unit_cases[of "s ! i"] by blast
next
  fix i assume i: "i < length s"
  assume "s ! i \<in> {0x2013, 0x2014, 0x2022}"
  then show "cleanText s ! i = 0x2D"
    unfolding cleanText_nth[OF i] using clean_unit_cases[of "s ! i"] by blast
next
  fix i assume i: "i < length s"
  assume "supported_unit (s ! i)"
  then show "cleanText s ! i = s ! i"
    unfolding cleanText_nth[OF i] by (rule clean_unit_supported)
next
  fix i assume i: "i < length s"
  assume "\<not> supported_unit (s ! i) \<and>
         s ! i \<notin> {0x2018, 0x2019, 0x201C, 0x201D, 0x2013, 0x2014, 0x2022}"
  then show "cleanText s ! i = 0x20"
    unfolding cleanText_nth[OF i] using clean_unit_cases[of "s ! i"] by blast
qed


theorem cleanText_unitwise_witness:
  "cleanText ([0x201C] @ ascii ''uno'' @ [0x201D, 0x2192] @ ascii ''dos'' @ [0x2014, 0x2019, 0xF1])
     = [0x22] @ ascii ''uno'' @ [0x22] @ ascii '' dos-'' @ [0x27, 0xF1]
   \<and> length (cleanText ([0x201C] @ ascii ''uno'' @ [0x201D, 0x2192] @ ascii ''dos'' @ [0x2014, 0x2019, 0xF1]))
     = length ([0x201C] @ ascii ''uno'' @ [0x201D, 0x2192] @ ascii ''dos'' @ [0x2014, 0x2019, 0xF1])
   \<and> supported_unit (cleanText [0x2192] ! 0)"
proof -
  let ?s = "[0x201C] @ ascii ''uno'' @ [0x201D, 0x2192] @ ascii ''dos'' @ [0x2014, 0x2019, 0xF1]"
  have v: "map clean_unit ?s = [0x22] @ ascii ''uno'' @ [0x22] @ ascii '' dos-'' @ [0x27, 0xF1]"
    by (simp add: clean_unit_def supported_unit_def ascii_def)
  have a: "cleanText ?s = map clean_unit ?s"
    by (rule cleanText_unitwise[of ?s, THEN conjunct1])
  have b: "length (cleanText ?s) = length ?s"
    by (rule cleanText_unitwise[of ?s, THEN conjunct2, THEN conjunct1])
  have "\<forall>c \<in> set (cleanText [0x2192]). supported_unit c"
    by (rule cleanText_unitwise[of "[0x2192]", THEN conjunct2, THEN conjunct2, THEN conjunct1])
  moreover have "cleanText [0x2192] ! 0 \<in> set (cleanText [0x2192])"
    by (simp add: cleanText_map)
  ultimately have c: "supported_unit (cleanText [0x2192] ! 0)" by blast
  show ?thesis using a b c unfolding v by blast
qed

text \<open>
  C9, as the specification states it, fails at the bullet: U+2022 is outside the supported range and
  is none of the quotes and dashes, and it becomes a hyphen, not a space.
\<close>

theorem cleanText_bullet_counterexample:
  "\<not> supported_unit 0x2022
   \<and> 0x2022 \<notin> {0x2018, 0x2019, 0x201C, 0x201D, 0x2013, 0x2014 :: unit16}
   \<and> cleanText [0x2022] = ascii ''-''
   \<and> cleanText [0x2022] \<noteq> ascii '' ''"
  by (simp add: cleanText_map clean_unit_special unsupported_special ascii_def)

section \<open>The minimum-age field\<close>

lemma cleanText_append: "cleanText (a @ b) = cleanText a @ cleanText b"
  by (simp add: cleanText_map)

lemma cleanText_colon_dash: "cleanText (ascii '': -'') = ascii '': -''"
  by (simp add: cleanText_map clean_unit_def supported_unit_def ascii_def)

text \<open>
  C10. For an entry whose \<open>minAge\<close> is 0, the detail view and the line of the exported
  PDF show \<open>-\<close>, as they do for an entry with no \<open>minAge\<close>, while the card shows a badge
  \<open>+0\<close>, which it does not show for an entry with no \<open>minAge\<close>.
\<close>

theorem minAge_zero_surfaces_disagree:
  assumes "minAge e = Some 0"
  shows "modal_minAge_text e = ascii ''-''
       \<and> modal_minAge_text e = modal_minAge_text (e\<lparr>minAge := None\<rparr>)
       \<and> pdf_minAge_line label e = cleanText label @ ascii '': -''
       \<and> pdf_minAge_line label e = pdf_minAge_line label (e\<lparr>minAge := None\<rparr>)
       \<and> card_minAge_badge e = Some (Emerald_Shield, ascii ''+0'')
       \<and> card_minAge_badge (e\<lparr>minAge := None\<rparr>) = None"
proof -
  have zero: "Number_toString 0 = ascii ''0''"
    by (simp add: Number_toString_def nat_toString.simps ascii_def)
  have line: "label @ ascii '': '' @ ascii ''-'' = label @ ascii '': -''"
    by (simp add: ascii_def)
  have "pdf_minAge_line label e = cleanText (label @ ascii '': -'')"
    and "pdf_minAge_line label (e\<lparr>minAge := None\<rparr>) = cleanText (label @ ascii '': -'')"
    using assms by (simp_all add: pdf_minAge_line_def line)
  moreover have "card_minAge_badge e = Some (Emerald_Shield, ascii ''+0'')"
    using assms by (simp add: card_minAge_badge_def getAgeStyle_def zero ascii_def)
  ultimately show ?thesis
    using assms
    by (simp add: modal_minAge_text_def card_minAge_badge_def cleanText_append
        cleanText_colon_dash)
qed

theorem minAge_zero_surfaces_disagree_witness:
  "minAge sample_moodle = Some 0
   \<and> modal_minAge_text sample_moodle = ascii ''-''
   \<and> modal_minAge_text sample_kahoot = ascii ''-''
   \<and> minAge sample_kahoot = None
   \<and> pdf_minAge_line (ascii ''Edad'') sample_moodle = ascii ''Edad: -''
   \<and> card_minAge_badge sample_moodle = Some (Emerald_Shield, ascii ''+0'')
   \<and> card_minAge_badge sample_kahoot = None
   \<and> modal_minAge_text sample_scratch = ascii ''8+''
   \<and> card_minAge_badge sample_scratch = Some (Emerald_Shield, ascii ''+8'')"
proof -
  have z: "minAge sample_moodle = Some 0"
    by (simp add: sample_moodle_def)
  have k: "modal_minAge_text sample_kahoot = ascii ''-''" "minAge sample_kahoot = None"
    "card_minAge_badge sample_kahoot = None"
    by (simp_all add: modal_minAge_text_def card_minAge_badge_def sample_kahoot_def)
  have s: "modal_minAge_text sample_scratch = ascii ''8+''"
    "card_minAge_badge sample_scratch = Some (Emerald_Shield, ascii ''+8'')"
    by (simp_all add: modal_minAge_text_def card_minAge_badge_def sample_scratch_def
        getAgeStyle_def Number_toString_def nat_toString.simps ascii_def)
  have l: "cleanText (ascii ''Edad'') @ ascii '': -'' = ascii ''Edad: -''"
    by (simp add: cleanText_map clean_unit_def supported_unit_def ascii_def)
  show ?thesis
    using minAge_zero_surfaces_disagree[OF z, of "ascii ''Edad''"] z k s
    unfolding l by simp
qed

section \<open>The image resolution chain\<close>

lemma handleImgError_first_parsed:
  assumes "hostname (website app) = Some d"
  shows "handleImgError hostname app (img_initial app) =
           \<lparr>imgSrc = favicon_url d, showPlaceholder = False\<rparr>"
  using assms by (simp add: handleImgError_def img_initial_def)

lemma handleImgError_first_unparsable:
  assumes "hostname (website app) = None"
  shows "handleImgError hostname app (img_initial app) =
           \<lparr>imgSrc = iconUrl app, showPlaceholder = True\<rparr>"
  using assms by (simp add: handleImgError_def img_initial_def)

text \<open>
  Where the favicon-service URL differs from \<open>iconUrl\<close>, a second error shows the
  placeholder.
\<close>

lemma handleImgError_second:
  assumes "hostname (website app) = Some d" and "favicon_url d \<noteq> iconUrl app"
  shows "render_logo app
           (handleImgError hostname app (handleImgError hostname app (img_initial app))) =
           CategoryPlaceholder (category app)"
  using assms by (simp add: handleImgError_def img_initial_def render_logo_def)

text \<open>A render of the same entry keeps the state: only a new \<open>iconUrl\<close> starts over.\<close>

lemma img_rerender_same: "img_rerender app app st = st"
  by (simp add: img_rerender_def)

text \<open>\<open>handleImgError\<close> never hides the placeholder again.\<close>

lemma showPlaceholder_kept:
  assumes "showPlaceholder st"
  shows "showPlaceholder (handleImgError hostname app st)"
    and "render_logo app (handleImgError hostname app st) = CategoryPlaceholder (category app)"
  using assms by (simp_all add: handleImgError_def render_logo_def split: option.splits)

text \<open>
  Where the favicon-service URL is \<open>iconUrl\<close> itself, \<open>handleImgError\<close> leaves the initial
  state as it is, however often it runs.
\<close>

lemma handleImgError_fixpoint:
  assumes "hostname (website app) = Some d" and "iconUrl app = favicon_url d"
  shows "handleImgError hostname app (img_initial app) = img_initial app"
  using assms by (simp add: handleImgError_def img_initial_def)

lemma handleImgError_fixpoint_iterated:
  assumes "hostname (website app) = Some d" and "iconUrl app = favicon_url d"
  shows "(handleImgError hostname app ^^ n) (img_initial app) = img_initial app"
  by (induction n) (simp_all add: handleImgError_fixpoint[of hostname app d, OF assms])

lemma sample_favicon_entry_facts:
  "sample_hostname (website sample_favicon_entry) = Some (ascii ''kahoot.com'')"
  "iconUrl sample_favicon_entry = favicon_url (ascii ''kahoot.com'')"
  by (simp_all add: sample_favicon_entry_def sample_kahoot_def sample_hostname_def
      favicon_url_def ascii_def)

text \<open>
  C8 at the entry whose \<open>iconUrl\<close> is the favicon-service URL of its own website: the
  website parses, the source set after the first error is the source that has just
  failed, the state does not change, and after any number of errors the logo is still the
  \<open>img\<close> element with that source: the placeholder is never shown.
\<close>

theorem handleImgError_stuck_on_own_favicon:
  "sample_hostname (website sample_favicon_entry) = Some (ascii ''kahoot.com'')
   \<and> iconUrl sample_favicon_entry = favicon_url (ascii ''kahoot.com'')
   \<and> handleImgError sample_hostname sample_favicon_entry (img_initial sample_favicon_entry)
       = img_initial sample_favicon_entry
   \<and> (\<forall>n. render_logo sample_favicon_entry
             ((handleImgError sample_hostname sample_favicon_entry ^^ n)
                (img_initial sample_favicon_entry))
           = Img (iconUrl sample_favicon_entry))"
proof -
  note f = sample_favicon_entry_facts
  have "render_logo sample_favicon_entry (img_initial sample_favicon_entry) =
      Img (iconUrl sample_favicon_entry)"
    by (simp add: render_logo_def img_initial_def)
  then show ?thesis
    using f handleImgError_fixpoint[of sample_hostname sample_favicon_entry, OF f]
      handleImgError_fixpoint_iterated[of sample_hostname sample_favicon_entry, OF f]
    by simp
qed

section \<open>The review request and the display language\<close>

lemma length_cleanup: "length (cleanup rs) = length rs"
  by (induction rs rule: cleanup.induct) simp_all

lemma cleanup_last_unmounted:
  "rs \<noteq> [] \<Longrightarrow> \<not> isMounted (cleanup rs ! (length rs - 1))"
  by (induction rs rule: cleanup.induct) simp_all

lemma cleanup_same_calls:
  "map req_app (cleanup rs) = map req_app rs"
  "map req_language (cleanup rs) = map req_language rs"
  by (induction rs rule: cleanup.induct) simp_all

lemma toggleLanguage_changes: "language (toggleLanguage st) \<noteq> language st"
  by (cases "language st") (simp_all add: toggleLanguage_def)

lemma modal_rerender_changed:
  assumes "lang \<noteq> m_language ms"
  shows "modal_rerender (m_app ms) lang ms =
           ms\<lparr>m_language := lang, loading := True, error := None, analysis := None,
              requests := cleanup (requests ms) @
                [\<lparr>req_app = m_app ms, req_language = lang, isMounted = True\<rparr>]\<rparr>"
  using assms by (simp add: modal_rerender_def generateAnalysis_def)

lemma superseded_result_discarded:
  assumes "lang \<noteq> m_language ms" and "requests ms \<noteq> []"
  shows "request_settled modal_error (length (requests ms) - 1) result
           (modal_rerender (m_app ms) lang ms) = modal_rerender (m_app ms) lang ms"
proof -
  let ?rs = "cleanup (requests ms)"
  have i: "length (requests ms) - 1 < length ?rs"
    using assms(2) by (simp add: length_cleanup)
  have "\<not> isMounted (?rs ! (length (requests ms) - 1))"
    using assms(2) by (rule cleanup_last_unmounted)
  then have "\<not> isMounted ((?rs @ [\<lparr>req_app = m_app ms, req_language = lang, isMounted = True\<rparr>])
      ! (length (requests ms) - 1))"
    using i by (simp add: nth_append)
  then show ?thesis
    unfolding modal_rerender_changed[OF assms(1)] by (simp add: request_settled_def)
qed

lemma toggleLanguage_frame:
  "searchTerm (toggleLanguage st) = searchTerm st"
  "selectedCategories (toggleLanguage st) = selectedCategories st"
  "selectedStages (toggleLanguage st) = selectedStages st"
  "selectedRoles (toggleLanguage st) = selectedRoles st"
  "selectedPrices (toggleLanguage st) = selectedPrices st"
  "selectedApp (toggleLanguage st) = selectedApp st"
  by (simp_all add: toggleLanguage_def)

lemma toggleLanguage_filteredApps:
  "filteredApps lc C (toggleLanguage st) = filteredApps lc C st"
  by (simp add: filteredApps_def matches_defs toggleLanguage_def)

lemma toggleLanguage_activeFilterCount:
  "activeFilterCount (toggleLanguage st) = activeFilterCount st"
  by (simp add: activeFilterCount_def toggleLanguage_def)

lemma App_render_open:
  assumes "selectedApp st = Some (m_app ms)"
  shows "App_render st (Some ms) = Some (modal_rerender (m_app ms) (language st) ms)"
  using assms by (simp add: App_render_def)

lemma App_render_unchanged:
  assumes "selectedApp st = Some (m_app ms)" and "language st = m_language ms"
  shows "App_render st (Some ms) = Some ms"
  using assms by (simp add: App_render_def modal_rerender_def)

text \<open>
  C7, as the code has it. The detail view of the selected entry is open, rendered from
  the state of the page, and the language is toggled. The page renders the same view
  again, with the same entry and the other language, and the effect runs again: the closure
  of the call in flight is invalidated, so that its result is discarded when it arrives,
  and one new call is made for the same entry in the new language, with the view back in
  its loading state and its description resolved in the new language. The toggle changes
  the language and nothing else: the query, the four selections, the selected entry, the
  filter result and the count of active filters are as before. A render in which the
  selected entry and the language are as before, whatever else has changed, makes no call.
\<close>

theorem language_toggle_reissues_request:
  assumes "selectedApp st = Some (m_app ms)" and "m_language ms = language st"
  shows "App_render (toggleLanguage st) (Some ms) =
           Some (modal_rerender (m_app ms) (language (toggleLanguage st)) ms)
       \<and> language (toggleLanguage st) \<noteq> language st
       \<and> toggleLanguage (toggleLanguage st) = st
       \<and> requests (modal_rerender (m_app ms) (language (toggleLanguage st)) ms) =
           cleanup (requests ms) @
             [\<lparr>req_app = m_app ms, req_language = language (toggleLanguage st),
               isMounted = True\<rparr>]
       \<and> length (requests (modal_rerender (m_app ms) (language (toggleLanguage st)) ms)) =
           length (requests ms) + 1
       \<and> loading (modal_rerender (m_app ms) (language (toggleLanguage st)) ms)
       \<and> analysis (modal_rerender (m_app ms) (language (toggleLanguage st)) ms) = None
       \<and> (requests ms \<noteq> [] \<longrightarrow>
            request_settled modal_error (length (requests ms) - 1) result
              (modal_rerender (m_app ms) (language (toggleLanguage st)) ms) =
            modal_rerender (m_app ms) (language (toggleLanguage st)) ms)
       \<and> m_app (modal_rerender (m_app ms) (language (toggleLanguage st)) ms) = m_app ms
       \<and> modal_description (modal_rerender (m_app ms) (language (toggleLanguage st)) ms) =
           localized (language (toggleLanguage st)) (description (m_app ms))
       \<and> searchTerm (toggleLanguage st) = searchTerm st
       \<and> selectedCategories (toggleLanguage st) = selectedCategories st
       \<and> selectedStages (toggleLanguage st) = selectedStages st
       \<and> selectedRoles (toggleLanguage st) = selectedRoles st
       \<and> selectedPrices (toggleLanguage st) = selectedPrices st
       \<and> selectedApp (toggleLanguage st) = selectedApp st
       \<and> filteredApps toLowerCase C (toggleLanguage st) = filteredApps toLowerCase C st
       \<and> activeFilterCount (toggleLanguage st) = activeFilterCount st
       \<and> (\<forall>st'. selectedApp st' = selectedApp st \<and> language st' = language st \<longrightarrow>
            App_render st' (Some ms) = Some ms)"
proof -
  let ?l = "language (toggleLanguage st)"
  have ch: "?l \<noteq> m_language ms"
    using assms(2) toggleLanguage_changes[of st] by simp
  have sel: "selectedApp (toggleLanguage st) = Some (m_app ms)"
    using assms(1) by (simp add: toggleLanguage_frame)
  have r: "App_render (toggleLanguage st) (Some ms) = Some (modal_rerender (m_app ms) ?l ms)"
    using sel by (rule App_render_open)
  have twice: "toggleLanguage (toggleLanguage st) = st"
    by (cases "language st") (simp_all add: toggleLanguage_def)
  have disc: "requests ms \<noteq> [] \<longrightarrow>
            request_settled modal_error (length (requests ms) - 1) result
              (modal_rerender (m_app ms) ?l ms) = modal_rerender (m_app ms) ?l ms"
    using superseded_result_discarded[OF ch] by blast
  have same: "\<forall>st'. selectedApp st' = selectedApp st \<and> language st' = language st \<longrightarrow>
            App_render st' (Some ms) = Some ms"
    using assms by (simp add: App_render_unchanged)
  have calls: "requests (modal_rerender (m_app ms) ?l ms) =
           cleanup (requests ms) @ [\<lparr>req_app = m_app ms, req_language = ?l, isMounted = True\<rparr>]"
    and view: "loading (modal_rerender (m_app ms) ?l ms)"
      "analysis (modal_rerender (m_app ms) ?l ms) = None"
      "m_app (modal_rerender (m_app ms) ?l ms) = m_app ms"
      "modal_description (modal_rerender (m_app ms) ?l ms) =
         localized ?l (description (m_app ms))"
    unfolding modal_rerender_changed[OF ch] by (simp_all add: modal_description_def)
  have len: "length (requests (modal_rerender (m_app ms) ?l ms)) = length (requests ms) + 1"
    unfolding calls by (simp add: length_cleanup)
  show ?thesis
    using r ch assms(2) twice calls len view disc same
      toggleLanguage_frame[of st] toggleLanguage_filteredApps[of toLowerCase C st]
      toggleLanguage_activeFilterCount[of st]
    by (intro conjI) simp_all
qed

theorem language_toggle_reissues_request_witness:
  "selectedApp sample_open_state = Some sample_kahoot
   \<and> language sample_open_state = ES
   \<and> App_render sample_open_state None = Some (modal_mount sample_kahoot ES)
   \<and> requests (modal_mount sample_kahoot ES) =
       [\<lparr>req_app = sample_kahoot, req_language = ES, isMounted = True\<rparr>]
   \<and> App_render (toggleLanguage sample_open_state) (Some (modal_mount sample_kahoot ES)) =
       Some (modal_rerender sample_kahoot EU (modal_mount sample_kahoot ES))
   \<and> requests (modal_rerender sample_kahoot EU (modal_mount sample_kahoot ES)) =
       [\<lparr>req_app = sample_kahoot, req_language = ES, isMounted = False\<rparr>,
        \<lparr>req_app = sample_kahoot, req_language = EU, isMounted = True\<rparr>]
   \<and> request_settled (\<lambda>l. ascii ''Error'') 0 (Inl ())
        (modal_rerender sample_kahoot EU (modal_mount sample_kahoot ES)) =
      modal_rerender sample_kahoot EU (modal_mount sample_kahoot ES)
   \<and> modal_description (modal_mount sample_kahoot ES) = ascii ''Concursos''
   \<and> modal_description (modal_rerender sample_kahoot EU (modal_mount sample_kahoot ES)) =
       ascii ''Lehiaketak''
   \<and> selectedApp (toggleLanguage sample_open_state) = Some sample_kahoot
   \<and> filteredApps latin1_toLowerCase sample_catalog (toggleLanguage sample_open_state) =
       filteredApps latin1_toLowerCase sample_catalog sample_open_state
   \<and> App_render (clearFilters sample_open_state) (Some (modal_mount sample_kahoot ES)) =
       Some (modal_mount sample_kahoot ES)"
proof -
  let ?ms = "modal_mount sample_kahoot ES"
  have m: "m_app ?ms = sample_kahoot" and ml: "m_language ?ms = ES"
    and r: "requests ?ms = [\<lparr>req_app = sample_kahoot, req_language = ES, isMounted = True\<rparr>]"
    by (simp_all add: modal_mount_def generateAnalysis_def)
  have s: "selectedApp sample_open_state = Some sample_kahoot"
    and l: "language sample_open_state = ES"
    by (simp_all add: sample_open_state_def setSelectedApp_def initial_state_def)
  have t: "language (toggleLanguage sample_open_state) = EU"
    by (simp add: toggleLanguage_def l)
  have mount: "App_render sample_open_state None = Some ?ms"
    by (simp add: App_render_def s l)
  have d: "modal_description ?ms = ascii ''Concursos''"
    unfolding modal_description_def m ml by (simp add: sample_kahoot_def)
  have e: "localized EU (description sample_kahoot) = ascii ''Lehiaketak''"
    by (simp add: sample_kahoot_def)
  have cs: "selectedApp (clearFilters sample_open_state) = selectedApp sample_open_state"
    "language (clearFilters sample_open_state) = language sample_open_state"
    by (simp_all add: clearFilters_def)
  have a1: "selectedApp sample_open_state = Some (m_app ?ms)" using s m by simp
  have a2: "m_language ?ms = language sample_open_state" using l ml by simp
  note w = language_toggle_reissues_request[OF a1 a2, where modal_error = "\<lambda>l. ascii ''Error''"
        and result = "Inl ()" and toLowerCase = latin1_toLowerCase and C = sample_catalog]
  have keep: "App_render (clearFilters sample_open_state) (Some ?ms) = Some ?ms"
    using w cs by blast
  show ?thesis
    using w s l mount d keep
    unfolding m r t e by simp
qed

text \<open>
  C7, as the specification states it, fails: the first sample entry is selected and its
  detail view is open in Spanish with its review call in flight (one call, still mounted,
  the view loading); after the toggle the view has made two calls for that entry, a new
  one in Basque.
\<close>

theorem language_toggle_counterexample:
  "selectedApp sample_open_state = Some sample_kahoot
   \<and> App_render sample_open_state None = Some (modal_mount sample_kahoot ES)
   \<and> loading (modal_mount sample_kahoot ES)
   \<and> map isMounted (requests (modal_mount sample_kahoot ES)) = [True]
   \<and> map_option (map req_app \<circ> requests)
        (App_render (toggleLanguage sample_open_state) (App_render sample_open_state None))
       = Some [sample_kahoot, sample_kahoot]
   \<and> map_option (map req_language \<circ> requests)
        (App_render (toggleLanguage sample_open_state) (App_render sample_open_state None))
       = Some [ES, EU]
   \<and> map_option (map isMounted \<circ> requests)
        (App_render (toggleLanguage sample_open_state) (App_render sample_open_state None))
       = Some [False, True]
   \<and> map_option requests
        (App_render (toggleLanguage sample_open_state) (App_render sample_open_state None))
       \<noteq> map_option requests (App_render sample_open_state None)"
  by (simp add: App_render_def sample_open_state_def setSelectedApp_def modal_mount_def
      modal_rerender_def generateAnalysis_def toggleLanguage_def initial_state_def)

end
